theory Spec2Isabelle
  imports Main "HOL-Library.Word"
begin

section \<open>HTTP messages\<close>

text \<open>
  The server in \<^verbatim>\<open>include/critter/webserver.h\<close> handles
  \<^verbatim>\<open>http::request<http::string_body>\<close> and \<^verbatim>\<open>http::response<http::string_body>\<close>.
  Both are Beast messages: a protocol version, header fields, the keep-alive preference
  that \<^verbatim>\<open>keep_alive()\<close> reads and \<^verbatim>\<open>keep_alive(bool)\<close> sets, the payload length that
  \<^verbatim>\<open>prepare_payload()\<close> records, and a string body. The wire encoding of these is the
  library's business; the server only reads and sets them through these accessors, and
  so does the model. With no \<^verbatim>\<open>Connection\<close> field, \<^verbatim>\<open>keep_alive()\<close> is true from HTTP/1.1
  on and false before.
\<close>

type_synonym status = nat

definition status_ok :: status where
  "status_ok = 200"

definition status_not_found :: status where
  "status_not_found = 404"

definition status_internal_server_error :: status where
  "status_internal_server_error = 500"

datatype verb = get | post | put | delete_ | head | options | patch

datatype field = server | content_type | connection | upgrade_field

type_synonym fields = "(field \<times> string) list"

text \<open>\<^verbatim>\<open>res.set(name, value)\<close> replaces whatever the field held before.\<close>

definition set_field :: "field \<Rightarrow> string \<Rightarrow> fields \<Rightarrow> fields" where
  "set_field f v fs = (f, v) # filter (\<lambda>p. fst p \<noteq> f) fs"

definition get_field :: "fields \<Rightarrow> field \<Rightarrow> string option" where
  "get_field fs f = map_of fs f"

record message =
  version :: nat
  header :: fields
  keep_alive :: bool
  content_length :: "nat option"
  body :: string

record Request = message +
  http_method :: verb
  target :: string
  is_upgrade :: bool

record Response = message +
  status :: status

text \<open>
  \<^verbatim>\<open>http::response<http::string_body> res{status, version}\<close>: no fields, empty body.
  A response built with no arguments (line 163) is \<open>200\<close> on HTTP/1.1. With no
  \<^verbatim>\<open>Connection\<close> field, Beast reads keep-alive as true from HTTP/1.1 on and false before.
\<close>

definition new_response :: "status \<Rightarrow> nat \<Rightarrow> Response" where
  "new_response st v =
     \<lparr>version = v, header = [], keep_alive = (11 \<le> v), content_length = None,
      body = [], status = st\<rparr>"

definition default_response :: Response where
  "default_response = new_response status_ok 11"

text \<open>
  What is left of a request once it has been moved from, as by the move constructor of
  the message: the fields, and with them the target and what \<^verbatim>\<open>keep_alive()\<close> and
  \<^verbatim>\<open>is_upgrade\<close> read there, are gone, and so is the body; the verb and the version are
  plain numbers and stay.
\<close>

definition moved_from :: "Request \<Rightarrow> Request" where
  "moved_from req =
     req\<lparr>header := [], keep_alive := (11 \<le> version req), content_length := None,
         body := [], target := [], is_upgrade := False\<rparr>"

section \<open>Exceptions\<close>

text \<open>
  A \<^verbatim>\<open>const char*\<close> ends at its first NUL character. \<^verbatim>\<open>what()\<close> returns one, and
  both uses of it in the server (\<^verbatim>\<open>res.body() = e.what()\<close> and
  \<^verbatim>\<open>HttpException(..., e.what())\<close>) build a \<^verbatim>\<open>std::string\<close> from it.
\<close>

definition c_str :: "string \<Rightarrow> string" where
  "c_str s = takeWhile (\<lambda>c. c \<noteq> CHR 0x00) s"

text \<open>
  What an HTTP handler can throw, by the \<^verbatim>\<open>catch\<close> clause of lines 182 to 188 that
  takes it: \<^verbatim>\<open>critter::HttpException(code, message)\<close>, whose base
  \<^verbatim>\<open>std::runtime_error(message)\<close> keeps the message; any other class derived from
  \<^verbatim>\<open>std::exception\<close>, with the text behind its \<^verbatim>\<open>what()\<close>; and anything else, which only
  \<^verbatim>\<open>catch (...)\<close> takes.
\<close>

datatype exception =
    HttpException status string
  | std_exception string
  | non_std_exception

fun what :: "exception \<Rightarrow> string" where
  "what (HttpException c message) = c_str message"
| "what (std_exception w) = c_str w"
| "what non_std_exception = []"

section \<open>The payload of a response\<close>

text \<open>
  The statuses whose response carries no body: the informational ones, 204 and 304.
  Beast's \<^verbatim>\<open>prepare_payload()\<close> throws \<^verbatim>\<open>std::invalid_argument\<close> when such a response
  has a body that is not empty; otherwise, for a string body, it records the length of
  the body as the payload length.
\<close>

definition refuses_payload :: "status \<Rightarrow> bool" where
  "refuses_payload st = (100 \<le> st \<and> st < 200 \<or> st = 204 \<or> st = 304)"

definition prepare_payload :: "Response \<Rightarrow> exception + Response" where
  "prepare_payload res =
     (if body res \<noteq> [] \<and> refuses_payload (status res)
      then Inl (std_exception ''invalid response body'')
      else Inr (res\<lparr>content_length := Some (length (body res))\<rparr>))"

section \<open>Handlers and the route registry\<close>

text \<open>
  Constants of the toolchain that the sources use and do not define: the value of the
  macro \<^verbatim>\<open>BOOST_BEAST_VERSION_STRING\<close>, the text that \<^verbatim>\<open>std::bad_variant_access::what()\<close>
  returns, and the regular-expression matcher behind the registry. They are parameters
  of the model: every theorem holds for all of them.
\<close>

record platform =
  BOOST_BEAST_VERSION_STRING :: string
  bad_variant_access_what :: string
  regex_match :: "string \<Rightarrow> string \<Rightarrow> bool"

text \<open>
  Modelled from the spec: \<^verbatim>\<open>detail::HttpHandler\<close>, \<^verbatim>\<open>detail::WebSocketHandler\<close> and
  the handler type that \<^verbatim>\<open>detail::Registry\<close> stores (\<^verbatim>\<open>detail/registry.h\<close> is not
  among the sources). The spec has a two-variant tagged union; an HTTP handler is a
  function from a request to a response that may fail, a WebSocket handler is a callback
  of the host, kept abstract as \<open>'w\<close>. The engine passes the request to the HTTP handler
  with \<^verbatim>\<open>std::move\<close> (line 181), so the handler may take the request apart, and the engine
  reads the request again when the handler has thrown (line 193). An HTTP handler
  therefore has two parts: what the call returns or throws, and what the call leaves of
  the request: the request itself for a handler that only reads it, \<open>moved_from\<close> of it
  for a handler that takes it by value.
\<close>

datatype 'w handler =
    HttpHandler "Request \<Rightarrow> exception + Response" "Request \<Rightarrow> Request"
  | WebSocketHandler 'w

text \<open>
  \<^verbatim>\<open>std::get<T>(handler)\<close> on a variant that holds the other alternative throws
  \<^verbatim>\<open>std::bad_variant_access\<close>, a \<^verbatim>\<open>std::exception\<close>.
\<close>

definition bad_variant_access :: "platform \<Rightarrow> exception" where
  "bad_variant_access L = std_exception (bad_variant_access_what L)"

fun std_get_HttpHandler ::
  "platform \<Rightarrow> 'w handler
     \<Rightarrow> exception + ((Request \<Rightarrow> exception + Response) \<times> (Request \<Rightarrow> Request))" where
  "std_get_HttpHandler L (HttpHandler f leaves) = Inr (f, leaves)"
| "std_get_HttpHandler L (WebSocketHandler w) = Inl (bad_variant_access L)"

fun std_get_WebSocketHandler :: "platform \<Rightarrow> 'w handler \<Rightarrow> exception + 'w" where
  "std_get_WebSocketHandler L (WebSocketHandler w) = Inr w"
| "std_get_WebSocketHandler L (HttpHandler f leaves) = Inl (bad_variant_access L)"

text \<open>
  Modelled from the spec: \<^verbatim>\<open>detail::Registry\<close> with \<^verbatim>\<open>add\<close> and \<^verbatim>\<open>get\<close>
  (\<^verbatim>\<open>detail/registry.h\<close> is not among the sources). Routes are kept in insertion order;
  \<^verbatim>\<open>get\<close> returns the handler of the first route whose verb equals the request's and
  whose pattern matches the whole target, and signals \<^verbatim>\<open>NotFound\<close> (here \<open>None\<close>) when
  there is none.
\<close>

type_synonym 'w route = "verb \<times> string \<times> 'w handler"

type_synonym 'w Registry = "'w route list"

definition Registry_add :: "verb \<Rightarrow> string \<Rightarrow> 'w handler \<Rightarrow> 'w Registry \<Rightarrow> 'w Registry" where
  "Registry_add v uri_regex h reg = reg @ [(v, uri_regex, h)]"

fun Registry_get :: "platform \<Rightarrow> 'w Registry \<Rightarrow> verb \<Rightarrow> string \<Rightarrow> 'w handler option" where
  "Registry_get L [] v t = None"
| "Registry_get L ((v', uri_regex, h) # reg) v t =
     (if v' = v \<and> regex_match L uri_regex t then Some h else Registry_get L reg v t)"

section \<open>Engine-synthesized responses\<close>

text \<open>
  \<^verbatim>\<open>WebServer::not_found\<close>, lines 118 to 127. \<open>Inl\<close> is the exception that
  \<^verbatim>\<open>prepare_payload\<close> throws.
\<close>

definition not_found :: "platform \<Rightarrow> Request \<Rightarrow> exception + Response" where
  "not_found L req =
     (let res = new_response status_not_found (version req);
          res = res\<lparr>header := set_field server (BOOST_BEAST_VERSION_STRING L) (header res)\<rparr>;
          res = res\<lparr>header := set_field content_type ''text/html'' (header res)\<rparr>;
          res = res\<lparr>keep_alive := keep_alive req\<rparr>;
          res = res\<lparr>body := ''The resource '' @ [CHR 0x27] @ target req @ [CHR 0x27] @ '' was not found.''\<rparr>
      in prepare_payload res)"

text \<open>
  \<^verbatim>\<open>WebServer::exception_response\<close>, lines 130 to 139. Its second argument is a
  \<^verbatim>\<open>const HttpException&\<close>: \<open>c\<close> is \<^verbatim>\<open>e.code()\<close> and \<open>message\<close> what the exception
  was built with. \<open>Inl\<close> is the exception that \<^verbatim>\<open>prepare_payload\<close> throws.
\<close>

definition exception_response ::
  "platform \<Rightarrow> Request \<Rightarrow> status \<Rightarrow> string \<Rightarrow> exception + Response" where
  "exception_response L req c message =
     (let res = new_response c (version req);
          res = res\<lparr>header := set_field server (BOOST_BEAST_VERSION_STRING L) (header res)\<rparr>;
          res = res\<lparr>header := set_field content_type ''text/html'' (header res)\<rparr>;
          res = res\<lparr>keep_alive := keep_alive req\<rparr>;
          res = res\<lparr>body := what (HttpException c message)\<rparr>
      in prepare_payload res)"

section \<open>The server object and the session registry\<close>

text \<open>
  \<^verbatim>\<open>boost::system::error_code\<close>, as far as the server looks at it: clear, the
  end-of-stream condition of the HTTP parser, or any other error.
\<close>

datatype error_code = success | end_of_stream | failure nat

text \<open>
  Objects live in a store. A \<^verbatim>\<open>std::vector<std::shared_ptr<WebSocketSession>>\<close> is a
  list of the addresses its elements point to, since \<^verbatim>\<open>shared_ptr\<close> compares by address;
  a \<^verbatim>\<open>WebSocketSessionImpl\<close> keeps the handler it was built with. \<open>brk\<close> is the next
  address that an allocation returns.
\<close>

type_synonym addr = nat

type_synonym session = addr

record 'w heap =
  vectors :: "addr \<Rightarrow> session list option"
  sessions :: "addr \<Rightarrow> 'w option"
  brk :: addr

type_synonym endpoint = "string \<times> 16 word"

datatype task = do_listen_task endpoint

text \<open>
  The members of \<^verbatim>\<open>WebServer\<close>: the reactor \<^verbatim>\<open>ioc\<close> with the coroutines spawned on it and
  not yet started, the route registry, and the vector of live sessions, which every
  access reaches under \<^verbatim>\<open>mutex_\<close> and which the model therefore reads and writes in one
  step. The members \<^verbatim>\<open>registry_\<close> and \<^verbatim>\<open>ws_sessions_\<close> lose their last character here,
  where a name cannot end in an underscore.
\<close>

record 'w WebServer =
  ioc :: "task list"
  registry :: "'w Registry"
  ws_sessions :: addr

definition make_shared :: "'w \<Rightarrow> 'w heap \<Rightarrow> session \<times> 'w heap" where
  "make_shared w h = (brk h, h\<lparr>sessions := (sessions h)(brk h \<mapsto> w), brk := Suc (brk h)\<rparr>)"

text \<open>\<^verbatim>\<open>WebServer::add\<close>, lines 251 to 255.\<close>

definition add :: "'w WebServer \<Rightarrow> session \<Rightarrow> 'w heap \<Rightarrow> 'w heap" where
  "add srv s h =
     h\<lparr>vectors := (vectors h)(ws_sessions srv :=
          map_option (\<lambda>v. v @ [s]) (vectors h (ws_sessions srv)))\<rparr>"

text \<open>
  \<^verbatim>\<open>std::remove(first, last, value)\<close> moves the elements that differ from \<open>value\<close> to the
  front, in their order, and returns the end of that range; \<^verbatim>\<open>erase\<close> then drops
  everything from there on. \<open>std_remove\<close> is the range that is left.
\<close>

fun std_remove :: "'a list \<Rightarrow> 'a \<Rightarrow> 'a list" where
  "std_remove [] x = []"
| "std_remove (y # ys) x = (if y = x then std_remove ys x else y # std_remove ys x)"

text \<open>\<^verbatim>\<open>WebServer::remove\<close>, lines 257 to 262.\<close>

definition remove :: "'w WebServer \<Rightarrow> session \<Rightarrow> 'w heap \<Rightarrow> 'w heap" where
  "remove srv s h =
     h\<lparr>vectors := (vectors h)(ws_sessions srv :=
          map_option (\<lambda>v. std_remove v s) (vectors h (ws_sessions srv)))\<rparr>"

text \<open>
  \<^verbatim>\<open>WebServer::get_ws_sessions\<close>, lines 99 to 103, returns the vector by value: a new
  vector object, copy-constructed from the member, at an address of its own.
\<close>

definition get_ws_sessions :: "'w WebServer \<Rightarrow> 'w heap \<Rightarrow> addr \<times> 'w heap" where
  "get_ws_sessions srv h =
     (brk h, h\<lparr>vectors := (vectors h)(brk h := vectors h (ws_sessions srv)),
               brk := Suc (brk h)\<rparr>)"

text \<open>The two ways in which the host changes the registry of sessions.\<close>

datatype registry_op = Add session | Remove session

fun apply_op :: "'w WebServer \<Rightarrow> registry_op \<Rightarrow> 'w heap \<Rightarrow> 'w heap" where
  "apply_op srv (Add s) h = add srv s h"
| "apply_op srv (Remove s) h = remove srv s h"

fun apply_ops :: "'w WebServer \<Rightarrow> registry_op list \<Rightarrow> 'w heap \<Rightarrow> 'w heap" where
  "apply_ops srv [] h = h"
| "apply_ops srv (x # xs) h = apply_ops srv xs (apply_op srv x h)"

text \<open>\<^verbatim>\<open>WebServer::add_ws_handler\<close>, lines 83 to 86.\<close>

definition add_ws_handler :: "string \<Rightarrow> 'w \<Rightarrow> 'w WebServer \<Rightarrow> 'w WebServer" where
  "add_ws_handler uri_regex f srv =
     srv\<lparr>registry := Registry_add get uri_regex (WebSocketHandler f) (registry srv)\<rparr>"

text \<open>
  \<^verbatim>\<open>WebServer::add_http_handler\<close>, lines 77 to 81. \<^verbatim>\<open>detail::make_response\<close> is not
  among the sources and is a parameter. The host's function \<^verbatim>\<open>f\<close> is called with
  \<^verbatim>\<open>std::move(r)\<close>: \<open>f\<close> is what it returns or throws and \<open>leaves\<close> what it leaves of the
  request.
\<close>

definition add_http_handler ::
  "('r \<Rightarrow> Response) \<Rightarrow> verb \<Rightarrow> string \<Rightarrow> (Request \<Rightarrow> exception + 'r) \<Rightarrow> (Request \<Rightarrow> Request)
     \<Rightarrow> 'w WebServer \<Rightarrow> 'w WebServer" where
  "add_http_handler make_response v uri_regex f leaves srv =
     srv\<lparr>registry := Registry_add v uri_regex
        (HttpHandler (\<lambda>r. map_sum (\<lambda>e. e) make_response (f r)) leaves) (registry srv)\<rparr>"

section \<open>The session loop\<close>

text \<open>
  The \<^verbatim>\<open>try\<close> block of \<^verbatim>\<open>do_session\<close>, lines 164 to 194, ends in one of three ways: with
  a response to send, in the branch that hands the socket to a WebSocket session, or
  with an exception that leaves it: one that neither \<^verbatim>\<open>catch\<close> clause of lines 190 and
  192 takes, or one thrown inside such a clause, where \<^verbatim>\<open>not_found\<close> and
  \<^verbatim>\<open>exception_response\<close> call \<^verbatim>\<open>prepare_payload\<close>.
\<close>

datatype 'w dispatched = Respond Response | Upgrade 'w | Escaped exception

text \<open>
  Lines 180 to 188: the handler is taken out of the variant and called with the request
  moved into it; whatever is thrown leaves as an \<^verbatim>\<open>HttpException\<close>, given as its code and
  message. The second component is the request as it is afterwards: untouched when
  \<^verbatim>\<open>std::get\<close> has thrown, since the handler was not called, and otherwise what the
  handler leaves of it.
\<close>

fun rethrow :: "exception \<Rightarrow> status \<times> string" where
  "rethrow (HttpException c message) = (c, message)"
| "rethrow (std_exception w) = (status_internal_server_error, what (std_exception w))"
| "rethrow non_std_exception = (status_internal_server_error, ''unhandled exception'')"

definition call_HttpHandler ::
  "platform \<Rightarrow> 'w handler \<Rightarrow> Request \<Rightarrow> ((status \<times> string) + Response) \<times> Request" where
  "call_HttpHandler L handler req =
     (case std_get_HttpHandler L handler of
        Inl e \<Rightarrow> (Inl (rethrow e), req)
      | Inr (f, leaves) \<Rightarrow>
          (case f req of
             Inl e \<Rightarrow> (Inl (rethrow e), leaves req)
           | Inr response \<Rightarrow> (Inr response, leaves req)))"

text \<open>The \<^verbatim>\<open>catch\<close> clauses of lines 190 to 194 assign what the two functions return.\<close>

definition assign :: "exception + Response \<Rightarrow> 'w dispatched" where
  "assign r = (case r of Inl e \<Rightarrow> Escaped e | Inr response \<Rightarrow> Respond response)"

definition dispatch :: "platform \<Rightarrow> 'w Registry \<Rightarrow> Request \<Rightarrow> 'w dispatched" where
  "dispatch L reg req =
     (case Registry_get L reg (http_method req) (target req) of
        None \<Rightarrow> assign (not_found L req)
      | Some handler \<Rightarrow>
          if is_upgrade req then
            (case std_get_WebSocketHandler L handler of
               Inl e \<Rightarrow> Escaped e
             | Inr w \<Rightarrow> Upgrade w)
          else
            (case call_HttpHandler L handler req of
               (Inl (c, message), req') \<Rightarrow> assign (exception_response L req' c message)
             | (Inr response, req') \<Rightarrow> Respond response))"

text \<open>
  One turn of the loop as the socket sees it: what \<^verbatim>\<open>async_read\<close> yields, the error
  code and the request, and the error code that \<^verbatim>\<open>async_write\<close> yields if the turn gets
  to it. A connection is the list of its turns; when the list is used up, the peer sends
  nothing more and keeps the connection open, so the coroutine stays suspended in
  \<^verbatim>\<open>async_read\<close>.
\<close>

record io_round =
  read_ec :: error_code
  request :: Request
  write_ec :: error_code

type_synonym connection = "io_round list"

datatype action =
    Async_write Response error_code
  | Logged string error_code
  | Shutdown_send
  | On_close session
  | Run session Request

datatype outcome = Returned | Threw exception | Suspended

text \<open>\<^verbatim>\<open>WebServer::fail\<close>, lines 141 to 144, writes a line to \<^verbatim>\<open>std::cerr\<close>.\<close>

definition fail :: "error_code \<Rightarrow> string \<Rightarrow> action" where
  "fail ec what_failed = Logged what_failed ec"

text \<open>
  \<^verbatim>\<open>WebServer::do_session\<close>, lines 146 to 208. In the upgrade branch the session object
  is made and added to the registry, its close callback is set and its \<^verbatim>\<open>run\<close> is
  called; \<^verbatim>\<open>WebSocketSessionImpl\<close> is not among the sources, so the model records the two
  calls and takes \<^verbatim>\<open>run\<close> to return. The \<^verbatim>\<open>break\<close> statements of lines 159 and 204 lead
  to the \<^verbatim>\<open>shutdown\<close> of line 207, the \<^verbatim>\<open>return\<close> statements of lines 161, 176 and 199
  do not.
\<close>

fun do_session ::
  "platform \<Rightarrow> 'w WebServer \<Rightarrow> connection \<Rightarrow> 'w heap \<Rightarrow> action list \<times> outcome \<times> 'w heap" where
  "do_session L srv [] h = ([], Suspended, h)"
| "do_session L srv (io # rest) h =
     (if read_ec io = end_of_stream then ([Shutdown_send], Returned, h)
      else if read_ec io \<noteq> success then ([fail (read_ec io) ''read''], Returned, h)
      else
        (case dispatch L (registry srv) (request io) of
           Escaped e \<Rightarrow> ([], Threw e, h)
         | Upgrade w \<Rightarrow>
             (case make_shared w h of
                (s, h1) \<Rightarrow> ([On_close s, Run s (request io)], Returned, add srv s h1))
         | Respond response \<Rightarrow>
             if write_ec io \<noteq> success then
               ([Async_write response (write_ec io), fail (write_ec io) ''write''], Returned, h)
             else if \<not> keep_alive response then
               ([Async_write response success, Shutdown_send], Returned, h)
             else
               (case do_session L srv rest h of
                  (acts, out, h') \<Rightarrow> (Async_write response success # acts, out, h'))))"

text \<open>The actions that hand a response to \<^verbatim>\<open>async_write\<close>.\<close>

fun is_write :: "action \<Rightarrow> bool" where
  "is_write (Async_write res ec) = True"
| "is_write a = False"

section \<open>The listener\<close>

text \<open>
  What the network answers to the listener: the error codes of \<^verbatim>\<open>open\<close>, of
  \<^verbatim>\<open>set_option\<close> for the address reuse, of \<^verbatim>\<open>bind\<close> (for the endpoint asked for) and of
  \<^verbatim>\<open>listen\<close>, and for each \<^verbatim>\<open>async_accept\<close> in turn its error code and the connection
  accepted.
\<close>

record net =
  open_ec :: error_code
  set_option_ec :: error_code
  bind_ec :: "endpoint \<Rightarrow> error_code"
  listen_ec :: error_code
  accepts :: "(error_code \<times> connection) list"

datatype listen_action = Accept_failed error_code | Spawned connection

fun accept_loop :: "(error_code \<times> connection) list \<Rightarrow> listen_action list" where
  "accept_loop [] = []"
| "accept_loop ((ec, c) # rest) =
     (if ec \<noteq> success then Accept_failed ec else Spawned c) # accept_loop rest"

text \<open>
  \<^verbatim>\<open>WebServer::do_listen\<close>, lines 210 to 249. \<open>Inl ec\<close> is
  \<^verbatim>\<open>throw boost::system::system_error(ec)\<close>, which the code does after \<^verbatim>\<open>open\<close>, \<^verbatim>\<open>bind\<close>
  and \<^verbatim>\<open>listen\<close> and which \<^verbatim>\<open>set_option\<close>, called at line 223 without an error code to
  fill, does itself. The accept loop has no exit, and \<open>Inr\<close> gives what it has done when
  the network has nothing more to accept.
\<close>

definition do_listen :: "net \<Rightarrow> endpoint \<Rightarrow> error_code + listen_action list" where
  "do_listen n ep =
     (if open_ec n \<noteq> success then Inl (open_ec n)
      else if set_option_ec n \<noteq> success then Inl (set_option_ec n)
      else if bind_ec n ep \<noteq> success then Inl (bind_ec n ep)
      else if listen_ec n \<noteq> success then Inl (listen_ec n)
      else Inr (accept_loop (accepts n)))"

text \<open>
  The constructor, lines 47 to 58: the port is an \<^verbatim>\<open>unsigned short\<close>, the address is
  \<^verbatim>\<open>::\<close>, and \<^verbatim>\<open>boost::asio::spawn\<close>
  queues \<^verbatim>\<open>do_listen\<close> on \<^verbatim>\<open>ioc\<close>. Nothing runs on \<^verbatim>\<open>ioc\<close> before \<^verbatim>\<open>ioc.run()\<close>. The
  members are default-constructed: an empty registry and an empty vector of sessions.
  \<open>Inl\<close> would be an exception leaving the constructor.
\<close>

definition WebServer ::
  "net \<Rightarrow> 16 word \<Rightarrow> 'w heap \<Rightarrow> error_code + ('w WebServer \<times> 'w heap)" where
  "WebServer n port h =
     Inr (\<lparr>ioc = [do_listen_task (''::'', port)], registry = [], ws_sessions = brk h\<rparr>,
          h\<lparr>vectors := (vectors h)(brk h \<mapsto> []), brk := Suc (brk h)\<rparr>)"

text \<open>
  \<^verbatim>\<open>WebServer::run\<close>, lines 105 to 108: \<^verbatim>\<open>ioc.run()\<close> starts the coroutines queued on the
  reactor, and an exception that leaves one of them leaves \<^verbatim>\<open>run\<close>. The sessions that the
  listener spawns are coroutines of their own, each a \<open>do_session\<close>.
\<close>

fun ioc_run :: "net \<Rightarrow> task list \<Rightarrow> error_code + listen_action list" where
  "ioc_run n [] = Inr []"
| "ioc_run n (do_listen_task ep # ts) =
     (case do_listen n ep of
        Inl ec \<Rightarrow> Inl ec
      | Inr acts \<Rightarrow> (case ioc_run n ts of Inl ec \<Rightarrow> Inl ec | Inr later \<Rightarrow> Inr (acts @ later)))"

definition run :: "net \<Rightarrow> 'w WebServer \<Rightarrow> error_code + listen_action list" where
  "run n srv = ioc_run n (ioc srv)"

section \<open>A sample host\<close>

text \<open>
  A host for the concrete runs below: a platform whose patterns match a target by
  equality, a server with four HTTP routes and one WebSocket route, registered through
  the server's own functions, and a store that holds the server's empty vector of
  sessions at address \<open>0\<close>. The handlers of \<^verbatim>\<open>/hello\<close> and \<^verbatim>\<open>/forbidden\<close> take the
  request by value, the other two only read it.
\<close>

definition sample_platform :: platform where
  "sample_platform =
     \<lparr>BOOST_BEAST_VERSION_STRING = ''Boost.Beast'',
      bad_variant_access_what = ''bad variant access'',
      regex_match = (\<lambda>pattern t. pattern = t)\<rparr>"

definition hello :: "Request \<Rightarrow> exception + Response" where
  "hello req = Inr ((new_response status_ok (version req))\<lparr>body := ''world''\<rparr>)"

definition forbidden :: "Request \<Rightarrow> exception + Response" where
  "forbidden req = Inl (HttpException 403 ''forbidden'')"

definition cut :: "Request \<Rightarrow> exception + Response" where
  "cut req = Inl (HttpException 403 [CHR ''a'', CHR 0x00, CHR ''b''])"

definition boom :: "Request \<Rightarrow> exception + Response" where
  "boom req = Inl (std_exception ''boom'')"

definition sample_server :: "nat WebServer" where
  "sample_server =
     add_ws_handler ''/ws'' 1
       (add_http_handler (\<lambda>r. r) get ''/boom'' boom (\<lambda>req. req)
         (add_http_handler (\<lambda>r. r) get ''/cut'' cut (\<lambda>req. req)
           (add_http_handler (\<lambda>r. r) get ''/forbidden'' forbidden moved_from
             (add_http_handler (\<lambda>r. r) get ''/hello'' hello moved_from
               \<lparr>ioc = [], registry = [], ws_sessions = 0\<rparr>))))"

definition sample_heap :: "nat heap" where
  "sample_heap = \<lparr>vectors = [0 \<mapsto> []], sessions = Map.empty, brk = 1\<rparr>"

text \<open>A GET request on HTTP/1.1 for a target, with its keep-alive and upgrade flags.\<close>

definition sample_request :: "string \<Rightarrow> bool \<Rightarrow> bool \<Rightarrow> Request" where
  "sample_request t ka up =
     \<lparr>version = 11, header = [], keep_alive = ka, content_length = None, body = [],
      http_method = get, target = t, is_upgrade = up\<rparr>"

text \<open>A turn in which the request is read and the response, if any, is sent.\<close>

definition served :: "Request \<Rightarrow> io_round" where
  "served req = \<lparr>read_ec = success, request = req, write_ec = success\<rparr>"

section \<open>The registry of WebSocket sessions\<close>

lemma std_remove_filter: "std_remove v s = filter (\<lambda>x. x \<noteq> s) v"
  by (induction v) auto

lemma std_remove_absent: "s \<notin> set v \<Longrightarrow> std_remove v s = v"
  by (induction v) auto

lemma std_remove_twice: "std_remove (std_remove v s) s = std_remove v s"
  by (simp add: std_remove_filter)

lemma remove_twice: "remove srv s (remove srv s h) = remove srv s h"
  by (simp add: remove_def option.map_comp comp_def std_remove_twice)

lemma remove_absent:
  assumes "vectors h (ws_sessions srv) = Some v" and "s \<notin> set v"
  shows "remove srv s h = h"
proof -
  have "(vectors h)(ws_sessions srv := Some v) = vectors h"
    using assms(1) by (simp add: fun_upd_idem)
  then show ?thesis
    using assms by (simp add: remove_def std_remove_absent)
qed

text \<open>
  C9. \<^verbatim>\<open>remove\<close> goes by the identity of the session and is idempotent. In every state
  and for every session \<open>s\<close>, the vector of live sessions after \<^verbatim>\<open>remove(s)\<close> is the one
  before with exactly the entries equal to \<open>s\<close> taken out, the others in their order;
  no other vector changes; when \<open>s\<close> is not in the vector, the whole state is as it was;
  and removing \<open>s\<close> a second time changes nothing.
\<close>

theorem remove_identity_idempotent:
  "vectors (remove srv s h) (ws_sessions srv)
     = map_option (filter (\<lambda>x. x \<noteq> s)) (vectors h (ws_sessions srv))
   \<and> (\<forall>a. a \<noteq> ws_sessions srv \<longrightarrow> vectors (remove srv s h) a = vectors h a)
   \<and> (\<forall>v. vectors h (ws_sessions srv) = Some v \<and> s \<notin> set v \<longrightarrow> remove srv s h = h)
   \<and> remove srv s (remove srv s h) = remove srv s h"
proof -
  have 1: "vectors (remove srv s h) (ws_sessions srv)
     = map_option (filter (\<lambda>x. x \<noteq> s)) (vectors h (ws_sessions srv))"
    by (cases "vectors h (ws_sessions srv)") (simp_all add: remove_def std_remove_filter)
  have 2: "\<forall>a. a \<noteq> ws_sessions srv \<longrightarrow> vectors (remove srv s h) a = vectors h a"
    by (simp add: remove_def)
  show ?thesis
    using 1 2 remove_absent remove_twice by blast
qed

text \<open>
  The vector \<open>[7, 3, 7]\<close> at address \<open>0\<close>: removing \<open>7\<close> leaves \<open>[3]\<close>, and removing
  \<open>5\<close>, which is not there, leaves the state as it is.
\<close>

theorem remove_identity_idempotent_witness:
  "vectors (remove \<lparr>ioc = [], registry = ([] :: unit Registry), ws_sessions = 0\<rparr> 7
       \<lparr>vectors = [0 \<mapsto> [7, 3, 7]], sessions = Map.empty, brk = 8\<rparr>) 0 = Some [3]
   \<and> remove \<lparr>ioc = [], registry = ([] :: unit Registry), ws_sessions = 0\<rparr> 5
       \<lparr>vectors = [0 \<mapsto> [7, 3, 7]], sessions = Map.empty, brk = 8\<rparr>
     = \<lparr>vectors = [0 \<mapsto> [7, 3, 7]], sessions = Map.empty, brk = 8\<rparr>"
  using remove_identity_idempotent
    [of "\<lparr>ioc = [], registry = ([] :: unit Registry), ws_sessions = 0\<rparr>" 7
        "\<lparr>vectors = [0 \<mapsto> [7, 3, 7]], sessions = Map.empty, brk = 8\<rparr>"]
    remove_identity_idempotent
    [of "\<lparr>ioc = [], registry = ([] :: unit Registry), ws_sessions = 0\<rparr>" 5
        "\<lparr>vectors = [0 \<mapsto> [7, 3, 7]], sessions = Map.empty, brk = 8\<rparr>"]
  by simp

lemma apply_op_frame:
  "a \<noteq> ws_sessions srv \<Longrightarrow> vectors (apply_op srv x h) a = vectors h a"
  by (cases x) (simp_all add: add_def remove_def)

lemma apply_ops_frame:
  "a \<noteq> ws_sessions srv \<Longrightarrow> vectors (apply_ops srv xs h) a = vectors h a"
  by (induction xs arbitrary: h) (simp_all add: apply_op_frame)

lemma apply_ops_brk: "brk (apply_ops srv xs h) = brk h"
proof (induction xs arbitrary: h)
  case Nil
  show ?case by simp
next
  case (Cons x xs)
  have "brk (apply_op srv x h) = brk h"
    by (cases x) (simp_all add: add_def remove_def)
  with Cons show ?case by simp
qed

lemma WebServer_allocates:
  "WebServer n port h = Inr (srv, h') \<Longrightarrow>
   ws_sessions srv < brk h' \<and> vectors h' (ws_sessions srv) = Some []"
  by (auto simp: WebServer_def)

text \<open>
  C8. \<^verbatim>\<open>get_ws_sessions\<close> returns an independent copy of the vector of live sessions
  as it is at the call. When the server's vector is allocated and holds \<open>v\<close>, the call
  returns a vector at an address other than the server's; that vector holds \<open>v\<close>, so its
  size is the number of sessions in the registry at that instant; the registry itself is
  as before; and the returned vector still holds \<open>v\<close> after any sequence of \<^verbatim>\<open>add\<close> and
  \<^verbatim>\<open>remove\<close> on the server.
\<close>

theorem get_ws_sessions_independent_copy:
  assumes "ws_sessions srv < brk h"
    and "vectors h (ws_sessions srv) = Some v"
    and "get_ws_sessions srv h = (a, h')"
  shows "a \<noteq> ws_sessions srv
    \<and> vectors h' a = Some v
    \<and> length (the (vectors h' a)) = length v
    \<and> vectors h' (ws_sessions srv) = Some v
    \<and> (\<forall>ops. vectors (apply_ops srv ops h') a = Some v)"
proof -
  from assms(3) have a: "a = brk h"
    and h': "h' = h\<lparr>vectors := (vectors h)(brk h := vectors h (ws_sessions srv)),
                      brk := Suc (brk h)\<rparr>"
    by (auto simp: get_ws_sessions_def)
  from a assms(1) have ne: "a \<noteq> ws_sessions srv" by simp
  have copy: "vectors h' a = Some v"
    using a h' assms(2) by simp
  have live: "vectors h' (ws_sessions srv) = Some v"
    using a h' ne assms(2) by simp
  have "\<forall>ops. vectors (apply_ops srv ops h') a = Some v"
    using ne copy by (simp add: apply_ops_frame)
  with ne copy live show ?thesis by simp
qed

text \<open>
  The registry holds \<open>[4, 6]\<close>. The copy is made at address \<open>8\<close>; after adding \<open>9\<close>
  and removing \<open>4\<close> the registry holds \<open>[6, 9]\<close> and the copy still \<open>[4, 6]\<close>.
\<close>

theorem get_ws_sessions_independent_copy_witness:
  "get_ws_sessions \<lparr>ioc = [], registry = ([] :: unit Registry), ws_sessions = 0\<rparr>
      \<lparr>vectors = [0 \<mapsto> [4, 6]], sessions = Map.empty, brk = 8\<rparr>
    = (8, \<lparr>vectors = [0 \<mapsto> [4, 6], 8 \<mapsto> [4, 6]], sessions = Map.empty, brk = 9\<rparr>)
   \<and> vectors (apply_ops \<lparr>ioc = [], registry = ([] :: unit Registry), ws_sessions = 0\<rparr>
        [Add 9, Remove 4]
        \<lparr>vectors = [0 \<mapsto> [4, 6], 8 \<mapsto> [4, 6]], sessions = Map.empty, brk = 9\<rparr>) 8
     = Some [4, 6]
   \<and> vectors (apply_ops \<lparr>ioc = [], registry = ([] :: unit Registry), ws_sessions = 0\<rparr>
        [Add 9, Remove 4]
        \<lparr>vectors = [0 \<mapsto> [4, 6], 8 \<mapsto> [4, 6]], sessions = Map.empty, brk = 9\<rparr>) 0
     = Some [6, 9]"
proof -
  let ?srv = "\<lparr>ioc = [], registry = ([] :: unit Registry), ws_sessions = 0\<rparr>"
  let ?h = "\<lparr>vectors = [0 \<mapsto> [4, 6 :: nat]], sessions = (Map.empty :: nat \<Rightarrow> unit option), brk = 8\<rparr>"
  let ?h' = "\<lparr>vectors = [0 \<mapsto> [4, 6 :: nat], 8 \<mapsto> [4, 6]], sessions = (Map.empty :: nat \<Rightarrow> unit option), brk = 9\<rparr>"
  have g: "get_ws_sessions ?srv ?h = (8, ?h')"
    by (simp add: get_ws_sessions_def)
  have "ws_sessions ?srv < brk ?h" and "vectors ?h (ws_sessions ?srv) = Some [4, 6]"
    by simp_all
  from get_ws_sessions_independent_copy [OF this g]
  have "vectors (apply_ops ?srv [Add 9, Remove 4] ?h') 8 = Some [4, 6]"
    by blast
  moreover have "vectors (apply_ops ?srv [Add 9, Remove 4] ?h') 0 = Some [6, 9]"
    by (simp add: add_def remove_def)
  ultimately show ?thesis using g by simp
qed

section \<open>Responses that the engine makes up\<close>

text \<open>The definitions of the sample host, for its concrete runs, and three of its routes.\<close>

lemmas sample_defs = sample_platform_def sample_server_def sample_heap_def sample_request_def
  served_def hello_def forbidden_def cut_def boom_def add_ws_handler_def add_http_handler_def
  Registry_add_def

lemma sample_get:
  "Registry_get sample_platform (registry sample_server) get ''/ws'' = Some (WebSocketHandler 1)"
  "Registry_get sample_platform (registry sample_server) get ''/forbidden''
     = Some (HttpHandler (\<lambda>r. map_sum (\<lambda>e. e) (\<lambda>r. r) (forbidden r)) moved_from)"
  "Registry_get sample_platform (registry sample_server) get ''/boom''
     = Some (HttpHandler (\<lambda>r. map_sum (\<lambda>e. e) (\<lambda>r. r) (boom r)) (\<lambda>req. req))"
  by (simp_all add: sample_platform_def sample_server_def add_ws_handler_def
      add_http_handler_def Registry_add_def)

lemma Registry_get_None_iff:
  "Registry_get L reg v t = None
     \<longleftrightarrow> (\<forall>r \<in> set reg. \<not> (fst r = v \<and> regex_match L (fst (snd r)) t))"
proof (induction reg)
  case Nil
  show ?case by simp
next
  case (Cons r reg)
  obtain v' p h where r: "r = (v', p, h)"
    by (cases r) auto
  show ?case
    using Cons.IH by (simp add: r)
qed

lemma Registry_get_add:
  "Registry_get L (Registry_add v p h reg) v' t =
     (case Registry_get L reg v' t of
        Some x \<Rightarrow> Some x
      | None \<Rightarrow> if v = v' \<and> regex_match L p t then Some h else None)"
  by (induction reg) (auto simp: Registry_add_def)

lemma get_field_set_field: "get_field (set_field f v fs) f = Some v"
  by (simp add: get_field_def set_field_def)

lemma get_field_set_field_other: "g \<noteq> f \<Longrightarrow> get_field (set_field f v fs) g = get_field fs g"
  by (induction fs) (auto simp: get_field_def set_field_def)

lemma c_str_c_str: "c_str (c_str s) = c_str s"
  by (simp add: c_str_def)

lemma c_str_no_nul: "CHR 0x00 \<notin> set s \<Longrightarrow> c_str s = s"
  by (auto simp: c_str_def takeWhile_eq_all_conv)

text \<open>
  \<^verbatim>\<open>not_found\<close> always returns: 404 is a status with a body. \<^verbatim>\<open>exception_response\<close>
  returns unless the status refuses a body and the text of the exception is not empty,
  and then \<^verbatim>\<open>prepare_payload\<close> throws.
\<close>

lemma not_found_returns:
  "\<exists>res. not_found L req = Inr res
     \<and> status res = 404
     \<and> get_field (header res) content_type = Some ''text/html''
     \<and> keep_alive res = keep_alive req
     \<and> body res = ''The resource '' @ [CHR 0x27] @ target req @ [CHR 0x27] @ '' was not found.''
     \<and> content_length res = Some (length (body res))"
  by (simp add: not_found_def new_response_def prepare_payload_def refuses_payload_def
      status_not_found_def get_field_set_field Let_def)

lemma exception_response_returns:
  assumes "\<not> (refuses_payload c \<and> c_str m \<noteq> [])"
  shows "\<exists>res. exception_response L req c m = Inr res
     \<and> status res = c
     \<and> get_field (header res) content_type = Some ''text/html''
     \<and> keep_alive res = keep_alive req
     \<and> body res = c_str m
     \<and> content_length res = Some (length (body res))"
  using assms
  by (auto simp: exception_response_def new_response_def prepare_payload_def
      get_field_set_field Let_def)

lemma exception_response_throws:
  assumes "refuses_payload c" and "c_str m \<noteq> []"
  shows "exception_response L req c m = Inl (std_exception ''invalid response body'')"
  using assms
  by (simp add: exception_response_def new_response_def prepare_payload_def Let_def)

lemma internal_server_error_has_payload: "\<not> refuses_payload status_internal_server_error"
  by (simp add: refuses_payload_def status_internal_server_error_def)

text \<open>
  A turn whose \<^verbatim>\<open>try\<close> block ends with a response passes that response to
  \<^verbatim>\<open>async_write\<close>, once, before anything else happens on the socket.
\<close>

lemma do_session_Respond:
  assumes "read_ec io = success"
    and "dispatch L (registry srv) (request io) = Respond r"
  shows "\<exists>acts out h'. do_session L srv (io # rest) h = (Async_write r (write_ec io) # acts, out, h')"
  using assms by (auto split: prod.splits)

lemma do_session_Escaped:
  assumes "read_ec io = success"
    and "dispatch L (registry srv) (request io) = Escaped e"
  shows "do_session L srv (io # rest) h = ([], Threw e, h)"
  using assms by simp

lemma dispatch_None:
  "Registry_get L reg (http_method req) (target req) = None \<Longrightarrow>
   dispatch L reg req = assign (not_found L req)"
  by (simp add: dispatch_def)

lemma dispatch_HttpHandler_throws:
  assumes "Registry_get L reg (http_method req) (target req) = Some (HttpHandler f leaves)"
    and "\<not> is_upgrade req"
    and "f req = Inl e"
  shows "dispatch L reg req
    = assign (exception_response L (leaves req) (fst (rethrow e)) (snd (rethrow e)))"
  using assms by (simp add: dispatch_def call_HttpHandler_def split: prod.splits)

lemma dispatch_HttpHandler_returns:
  assumes "Registry_get L reg (http_method req) (target req) = Some (HttpHandler f leaves)"
    and "\<not> is_upgrade req"
    and "f req = Inr response"
  shows "dispatch L reg req = Respond response"
  using assms by (simp add: dispatch_def call_HttpHandler_def)

lemma dispatch_WebSocketHandler_no_upgrade:
  assumes "Registry_get L reg (http_method req) (target req) = Some (WebSocketHandler w)"
    and "\<not> is_upgrade req"
  shows "dispatch L reg req
    = assign (exception_response L req status_internal_server_error
         (c_str (bad_variant_access_what L)))"
  using assms by (simp add: dispatch_def call_HttpHandler_def bad_variant_access_def)

text \<open>
  C3. For every request that was read and whose verb and target match no registered
  route, the engine writes the response that \<^verbatim>\<open>not_found\<close> builds: status 404, content
  type \<^verbatim>\<open>text/html\<close>, the keep-alive flag of the request, and the body
  \<^verbatim>\<open>The resource '<target>' was not found.\<close> with the target of the request
  (\<open>CHR 0x27\<close> is the apostrophe).
\<close>

theorem unmatched_request_gets_404:
  assumes "read_ec io = success"
    and "Registry_get L (registry srv) (http_method (request io)) (target (request io)) = None"
  shows "\<exists>res acts out h'.
      do_session L srv (io # rest) h = (Async_write res (write_ec io) # acts, out, h')
    \<and> not_found L (request io) = Inr res
    \<and> status res = 404
    \<and> get_field (header res) content_type = Some ''text/html''
    \<and> keep_alive res = keep_alive (request io)
    \<and> body res = ''The resource '' @ [CHR 0x27] @ target (request io) @ [CHR 0x27] @ '' was not found.''"
proof -
  from not_found_returns [of L "request io"]
  obtain res where n: "not_found L (request io) = Inr res"
    and f: "status res = 404"
      "get_field (header res) content_type = Some ''text/html''"
      "keep_alive res = keep_alive (request io)"
      "body res = ''The resource '' @ [CHR 0x27] @ target (request io) @ [CHR 0x27] @ '' was not found.''"
    by blast
  from dispatch_None [OF assms(2)] n
  have "dispatch L (registry srv) (request io) = Respond res"
    by (simp add: assign_def)
  from do_session_Respond [OF assms(1) this]
  obtain acts out h' where
    "do_session L srv (io # rest) h = (Async_write res (write_ec io) # acts, out, h')"
    by blast
  with n f show ?thesis by blast
qed

text \<open>
  The sample server has no route for \<^verbatim>\<open>/missing\<close>.
\<close>

theorem unmatched_request_gets_404_witness:
  "read_ec (served (sample_request ''/missing'' True False)) = success
   \<and> Registry_get sample_platform (registry sample_server)
        (http_method (request (served (sample_request ''/missing'' True False))))
        (target (request (served (sample_request ''/missing'' True False)))) = None
   \<and> (\<exists>res acts out h'.
        do_session sample_platform sample_server
          (served (sample_request ''/missing'' True False) # []) sample_heap
          = (Async_write res (write_ec (served (sample_request ''/missing'' True False))) # acts,
             out, h')
      \<and> not_found sample_platform (request (served (sample_request ''/missing'' True False)))
          = Inr res
      \<and> status res = 404
      \<and> get_field (header res) content_type = Some ''text/html''
      \<and> keep_alive res = keep_alive (request (served (sample_request ''/missing'' True False)))
      \<and> body res = ''The resource '' @ [CHR 0x27]
           @ target (request (served (sample_request ''/missing'' True False)))
           @ [CHR 0x27] @ '' was not found.'')"
proof -
  let ?io = "served (sample_request ''/missing'' True False)"
  have r: "read_ec ?io = success"
    by (simp add: served_def)
  have g: "Registry_get sample_platform (registry sample_server)
      (http_method (request ?io)) (target (request ?io)) = None"
    by (simp add: sample_defs)
  from r g unmatched_request_gets_404 [OF r g, of "[]" sample_heap]
  show ?thesis by blast
qed

section \<open>Handlers that fail\<close>

text \<open>
  C4, as the code has it. When the HTTP handler of a request that was read throws
  \<^verbatim>\<open>HttpException(S, M)\<close>, and \<open>S\<close> is not a status that refuses a body (an
  informational status, 204 or 304) or the text of \<open>M\<close> is empty, the engine writes a
  response with status \<open>S\<close> whose body is \<open>M\<close> up to its first NUL character:
  \<^verbatim>\<open>what()\<close> hands the message over as a \<^verbatim>\<open>const char*\<close>. The body is exactly \<open>M\<close>
  whenever \<open>M\<close> has no NUL character in it.
\<close>

theorem application_error_response:
  assumes "read_ec io = success"
    and "\<not> is_upgrade (request io)"
    and "Registry_get L (registry srv) (http_method (request io)) (target (request io))
           = Some (HttpHandler f leaves)"
    and "f (request io) = Inl (HttpException S M)"
    and "\<not> (refuses_payload S \<and> c_str M \<noteq> [])"
  shows "\<exists>res acts out h'.
      do_session L srv (io # rest) h = (Async_write res (write_ec io) # acts, out, h')
    \<and> status res = S
    \<and> body res = c_str M
    \<and> (CHR 0x00 \<notin> set M \<longrightarrow> body res = M)"
proof -
  from exception_response_returns [OF assms(5), of L "leaves (request io)"]
  obtain res where e: "exception_response L (leaves (request io)) S M = Inr res"
    and s: "status res = S" and b: "body res = c_str M"
    by blast
  from dispatch_HttpHandler_throws [OF assms(3) assms(2) assms(4)] e
  have "dispatch L (registry srv) (request io) = Respond res"
    by (simp add: assign_def)
  from do_session_Respond [OF assms(1) this]
  obtain acts out h' where
    "do_session L srv (io # rest) h = (Async_write res (write_ec io) # acts, out, h')"
    by blast
  with s b show ?thesis
    by (metis c_str_no_nul)
qed

text \<open>
  The route \<^verbatim>\<open>/forbidden\<close> of the sample server throws
  \<^verbatim>\<open>HttpException(403, "forbidden")\<close>, and 403 is a status with a body.
\<close>

theorem application_error_response_witness:
  "read_ec (served (sample_request ''/forbidden'' True False)) = success
   \<and> \<not> is_upgrade (request (served (sample_request ''/forbidden'' True False)))
   \<and> \<not> (refuses_payload 403 \<and> c_str ''forbidden'' \<noteq> [])
   \<and> (\<exists>res acts out h'.
        do_session sample_platform sample_server
          (served (sample_request ''/forbidden'' True False) # []) sample_heap
          = (Async_write res (write_ec (served (sample_request ''/forbidden'' True False))) # acts,
             out, h')
      \<and> status res = 403
      \<and> body res = c_str ''forbidden''
      \<and> (CHR 0x00 \<notin> set ''forbidden'' \<longrightarrow> body res = ''forbidden''))"
proof -
  let ?io = "served (sample_request ''/forbidden'' True False)"
  let ?f = "\<lambda>r. map_sum (\<lambda>e. e) (\<lambda>r. r) (forbidden r)"
  have r: "read_ec ?io = success" and u: "\<not> is_upgrade (request ?io)"
    by (simp_all add: served_def sample_request_def)
  have g: "Registry_get sample_platform (registry sample_server)
      (http_method (request ?io)) (target (request ?io)) = Some (HttpHandler ?f moved_from)"
    by (simp add: served_def sample_request_def sample_get)
  have t: "?f (request ?io) = Inl (HttpException 403 ''forbidden'')"
    by (simp add: forbidden_def)
  have p: "\<not> (refuses_payload 403 \<and> c_str ''forbidden'' \<noteq> [])"
    by (simp add: refuses_payload_def)
  from r u p application_error_response [OF r u g t p, of "[]" sample_heap]
  show ?thesis by blast
qed

text \<open>
  The route \<^verbatim>\<open>/cut\<close> throws an \<^verbatim>\<open>HttpException\<close> whose message is the three characters
  \<open>a\<close>, NUL, \<open>b\<close>, with a status that has a body. The body that is written is \<open>a\<close>, not
  the message.
\<close>

theorem application_error_body_counterexample:
  "cut (sample_request ''/cut'' True False) = Inl (HttpException 403 [CHR ''a'', CHR 0x00, CHR ''b''])
   \<and> do_session sample_platform sample_server
       [served (sample_request ''/cut'' True False)] sample_heap
     = ([Async_write
          \<lparr>version = 11, header = [(content_type, ''text/html''), (server, ''Boost.Beast'')],
           keep_alive = True, content_length = Some 1, body = ''a'', status = 403\<rparr> success],
        Suspended, sample_heap)
   \<and> ''a'' \<noteq> [CHR ''a'', CHR 0x00, CHR ''b'']"
  by (simp add: sample_defs dispatch_def call_HttpHandler_def assign_def exception_response_def
      new_response_def prepare_payload_def refuses_payload_def set_field_def c_str_def Let_def)

text \<open>
  A status that refuses a body, with a message: \<^verbatim>\<open>prepare_payload\<close> throws inside the
  \<^verbatim>\<open>catch\<close> clause of line 192, and the exception leaves \<^verbatim>\<open>do_session\<close> with nothing
  written.
\<close>

lemma application_error_without_payload:
  assumes "read_ec io = success"
    and "\<not> is_upgrade (request io)"
    and "Registry_get L (registry srv) (http_method (request io)) (target (request io))
           = Some (HttpHandler f leaves)"
    and "f (request io) = Inl (HttpException S M)"
    and "refuses_payload S" and "c_str M \<noteq> []"
  shows "do_session L srv (io # rest) h = ([], Threw (std_exception ''invalid response body''), h)"
proof -
  from dispatch_HttpHandler_throws [OF assms(3) assms(2) assms(4)]
    exception_response_throws [OF assms(5) assms(6), of L "leaves (request io)"]
  have "dispatch L (registry srv) (request io) = Escaped (std_exception ''invalid response body'')"
    by (simp add: assign_def)
  from do_session_Escaped [OF assms(1) this] show ?thesis .
qed

text \<open>
  C5. When the HTTP handler of a request that was read throws anything other than an
  \<^verbatim>\<open>HttpException\<close>, the engine writes a response with status 500. Its body is the text
  of \<^verbatim>\<open>what()\<close> when the exception is a \<^verbatim>\<open>std::exception\<close>, and
  \<^verbatim>\<open>unhandled exception\<close> otherwise.
\<close>

theorem unclassified_failure_response:
  assumes "read_ec io = success"
    and "\<not> is_upgrade (request io)"
    and "Registry_get L (registry srv) (http_method (request io)) (target (request io))
           = Some (HttpHandler f leaves)"
    and "f (request io) = Inl e"
    and "e = std_exception w \<or> e = non_std_exception"
  shows "\<exists>res acts out h'.
      do_session L srv (io # rest) h = (Async_write res (write_ec io) # acts, out, h')
    \<and> status res = 500
    \<and> (e = std_exception w \<longrightarrow> body res = what e)
    \<and> (e = non_std_exception \<longrightarrow> body res = ''unhandled exception'')"
proof -
  have c: "fst (rethrow e) = status_internal_server_error"
    using assms(5) by auto
  then have "\<not> (refuses_payload (fst (rethrow e)) \<and> c_str (snd (rethrow e)) \<noteq> [])"
    by (simp add: internal_server_error_has_payload)
  from exception_response_returns [OF this, of L "leaves (request io)"]
  obtain res where
    e: "exception_response L (leaves (request io)) (fst (rethrow e)) (snd (rethrow e)) = Inr res"
    and s: "status res = fst (rethrow e)" and b: "body res = c_str (snd (rethrow e))"
    by blast
  from dispatch_HttpHandler_throws [OF assms(3) assms(2) assms(4)] e
  have "dispatch L (registry srv) (request io) = Respond res"
    by (simp add: assign_def)
  from do_session_Respond [OF assms(1) this]
  obtain acts out h' where
    d: "do_session L srv (io # rest) h = (Async_write res (write_ec io) # acts, out, h')"
    by blast
  have s': "status res = 500"
    using s c by (simp add: status_internal_server_error_def)
  have b1: "e = std_exception w \<longrightarrow> body res = what e"
    using b by (auto simp: c_str_c_str)
  have b2: "e = non_std_exception \<longrightarrow> body res = ''unhandled exception''"
    using b by (auto simp: c_str_def)
  from d s' b1 b2 show ?thesis by blast
qed

text \<open>
  The route \<^verbatim>\<open>/boom\<close> of the sample server throws a \<^verbatim>\<open>std::exception\<close> with the text
  \<^verbatim>\<open>boom\<close>.
\<close>

theorem unclassified_failure_response_witness:
  "read_ec (served (sample_request ''/boom'' True False)) = success
   \<and> \<not> is_upgrade (request (served (sample_request ''/boom'' True False)))
   \<and> (\<exists>res acts out h'.
        do_session sample_platform sample_server
          (served (sample_request ''/boom'' True False) # []) sample_heap
          = (Async_write res (write_ec (served (sample_request ''/boom'' True False))) # acts,
             out, h')
      \<and> status res = 500
      \<and> body res = ''boom'')"
proof -
  let ?io = "served (sample_request ''/boom'' True False)"
  let ?f = "\<lambda>r. map_sum (\<lambda>e. e) (\<lambda>r. r) (boom r)"
  have r: "read_ec ?io = success" and u: "\<not> is_upgrade (request ?io)"
    by (simp_all add: served_def sample_request_def)
  have g: "Registry_get sample_platform (registry sample_server)
      (http_method (request ?io)) (target (request ?io)) = Some (HttpHandler ?f (\<lambda>req. req))"
    by (simp add: served_def sample_request_def sample_get)
  have t: "?f (request ?io) = Inl (std_exception ''boom'')"
    by (simp add: boom_def)
  have e: "std_exception ''boom'' = std_exception ''boom'' \<or> std_exception ''boom'' = non_std_exception"
    by simp
  have w: "what (std_exception ''boom'') = ''boom''"
    by (simp add: c_str_def)
  from unclassified_failure_response [OF r u g t e, of "[]" sample_heap]
  obtain res acts out h' where
    d: "do_session sample_platform sample_server (?io # []) sample_heap
          = (Async_write res (write_ec ?io) # acts, out, h')"
    and s: "status res = 500"
    and b: "body res = what (std_exception ''boom'')"
    by blast
  from b have "body res = ''boom''"
    by (simp only: w)
  with r u d s show ?thesis by blast
qed

text \<open>
  C10. A request that was read, carries no upgrade signal and resolves to a route with
  a WebSocket handler does not reach that handler: the \<^verbatim>\<open>try\<close> block ends with a
  response, which the engine writes, with status 500 and the text of
  \<^verbatim>\<open>std::bad_variant_access::what()\<close> as its body; the failed access to the variant goes
  the way of any other \<^verbatim>\<open>std::exception\<close> that a handler throws. And
  \<^verbatim>\<open>add_ws_handler\<close> registers its route under the verb GET.
\<close>

theorem websocket_route_without_upgrade:
  assumes "read_ec io = success"
    and "\<not> is_upgrade (request io)"
    and "Registry_get L (registry srv) (http_method (request io)) (target (request io))
           = Some (WebSocketHandler w)"
  shows "(\<exists>res acts out h'.
        do_session L srv (io # rest) h = (Async_write res (write_ec io) # acts, out, h')
      \<and> dispatch L (registry srv) (request io) = Respond res
      \<and> status res = 500
      \<and> body res = what (bad_variant_access L))
    \<and> registry (add_ws_handler uri_regex f srv)
         = registry srv @ [(get, uri_regex, WebSocketHandler f)]"
proof -
  have "\<not> (refuses_payload status_internal_server_error
            \<and> c_str (c_str (bad_variant_access_what L)) \<noteq> [])"
    by (simp add: internal_server_error_has_payload)
  from exception_response_returns [OF this, of L "request io"]
  obtain res where
    e: "exception_response L (request io) status_internal_server_error
          (c_str (bad_variant_access_what L)) = Inr res"
    and s: "status res = status_internal_server_error"
    and b: "body res = c_str (c_str (bad_variant_access_what L))"
    by blast
  from dispatch_WebSocketHandler_no_upgrade [OF assms(3) assms(2)] e
  have r: "dispatch L (registry srv) (request io) = Respond res"
    by (simp add: assign_def)
  from do_session_Respond [OF assms(1) this]
  obtain acts out h' where
    d: "do_session L srv (io # rest) h = (Async_write res (write_ec io) # acts, out, h')"
    by blast
  have "status res = 500" and "body res = what (bad_variant_access L)"
    using s b by (simp_all add: status_internal_server_error_def bad_variant_access_def c_str_c_str)
  with d r have "\<exists>res acts out h'.
      do_session L srv (io # rest) h = (Async_write res (write_ec io) # acts, out, h')
    \<and> dispatch L (registry srv) (request io) = Respond res
    \<and> status res = 500
    \<and> body res = what (bad_variant_access L)"
    by blast
  moreover have "registry (add_ws_handler uri_regex f srv)
         = registry srv @ [(get, uri_regex, WebSocketHandler f)]"
    by (simp add: add_ws_handler_def Registry_add_def)
  ultimately show ?thesis by blast
qed

text \<open>
  The route \<^verbatim>\<open>/ws\<close> of the sample server has a WebSocket handler; the request has no
  upgrade signal.
\<close>

theorem websocket_route_without_upgrade_witness:
  "read_ec (served (sample_request ''/ws'' True False)) = success
   \<and> \<not> is_upgrade (request (served (sample_request ''/ws'' True False)))
   \<and> Registry_get sample_platform (registry sample_server)
        (http_method (request (served (sample_request ''/ws'' True False))))
        (target (request (served (sample_request ''/ws'' True False))))
      = Some (WebSocketHandler 1)
   \<and> (\<exists>res acts out h'.
        do_session sample_platform sample_server
          (served (sample_request ''/ws'' True False) # []) sample_heap
          = (Async_write res (write_ec (served (sample_request ''/ws'' True False))) # acts,
             out, h')
      \<and> status res = 500
      \<and> body res = ''bad variant access'')"
proof -
  let ?io = "served (sample_request ''/ws'' True False)"
  have r: "read_ec ?io = success" and u: "\<not> is_upgrade (request ?io)"
    by (simp_all add: served_def sample_request_def)
  have g: "Registry_get sample_platform (registry sample_server)
      (http_method (request ?io)) (target (request ?io)) = Some (WebSocketHandler 1)"
    by (simp add: served_def sample_request_def sample_get)
  have w: "what (bad_variant_access sample_platform) = ''bad variant access''"
    by (simp add: bad_variant_access_def sample_platform_def c_str_def)
  from websocket_route_without_upgrade [OF r u g, of "[]" sample_heap]
  obtain res acts out h' where
    d: "do_session sample_platform sample_server (?io # []) sample_heap
          = (Async_write res (write_ec ?io) # acts, out, h')"
    and s: "status res = 500"
    and b: "body res = what (bad_variant_access sample_platform)"
    by blast
  from b have "body res = ''bad variant access''"
    by (simp only: w)
  with r u g d s show ?thesis by blast
qed

section \<open>The session loop, turn by turn\<close>

lemma do_session_close:
  assumes "read_ec io = success"
    and "dispatch L (registry srv) (request io) = Respond res"
    and "write_ec io = success"
    and "\<not> keep_alive res"
  shows "do_session L srv (io # rest) h = ([Async_write res success, Shutdown_send], Returned, h)"
  using assms by simp

lemma do_session_again:
  assumes "read_ec io = success"
    and "dispatch L (registry srv) (request io) = Respond res"
    and "write_ec io = success"
    and "keep_alive res"
  shows "do_session L srv (io # rest) h
    = (Async_write res success # fst (do_session L srv rest h),
       snd (do_session L srv rest h))"
  using assms by (simp split: prod.splits)

lemma do_session_brk: "do_session L srv c h = (acts, out, h') \<Longrightarrow> brk h \<le> brk h'"
proof (induction c arbitrary: acts out h')
  case Nil
  then show ?case by simp
next
  case (Cons io rest)
  then show ?case
    by (auto simp: make_shared_def add_def
        split: if_splits dispatched.splits prod.splits)
qed

lemma dispatch_outcome_plain_request:
  assumes "\<not> is_upgrade req"
  shows "(\<exists>res. dispatch L reg req = Respond res)
    \<or> dispatch L reg req = Escaped (std_exception ''invalid response body'')"
proof (cases "Registry_get L reg (http_method req) (target req)")
  case None
  with not_found_returns [of L req] show ?thesis
    by (auto simp: dispatch_def assign_def)
next
  case (Some handler)
  show ?thesis
  proof (cases "call_HttpHandler L handler req")
    case (Pair r req')
    show ?thesis
    proof (cases r)
      case (Inr response)
      with Some Pair assms show ?thesis
        by (simp add: dispatch_def)
    next
      case (Inl cm)
      obtain c m where cm: "cm = (c, m)"
        by (cases cm) auto
      show ?thesis
      proof (cases "refuses_payload c \<and> c_str m \<noteq> []")
        case True
        with exception_response_throws [of c m L req'] Some Pair Inl cm assms show ?thesis
          by (simp add: dispatch_def assign_def)
      next
        case False
        from exception_response_returns [OF False, of L req']
        obtain res where "exception_response L req' c m = Inr res"
          by blast
        with Some Pair Inl cm assms show ?thesis
          by (simp add: dispatch_def assign_def)
      qed
    qed
  qed
qed

text \<open>
  When the handler that throws leaves the request as it was read, the response made up
  for the failure carries the keep-alive flag of the request, like the one for a missing
  route. In general it carries the flag of what the handler leaves of the request.
\<close>

lemma error_response_keep_alive:
  assumes "Registry_get L reg (http_method req) (target req) = Some (HttpHandler f leaves)"
    and "\<not> is_upgrade req"
    and "f req = Inl e"
    and "dispatch L reg req = Respond res"
  shows "keep_alive res = keep_alive (leaves req)"
proof -
  from dispatch_HttpHandler_throws [OF assms(1) assms(2) assms(3)] assms(4)
  have "exception_response L (leaves req) (fst (rethrow e)) (snd (rethrow e)) = Inr res"
    by (simp add: assign_def split: sum.splits)
  then show ?thesis
    by (auto simp: exception_response_def new_response_def prepare_payload_def Let_def
        split: if_splits)
qed

text \<open>
  C6, at an input where the code breaks it. The handler of \<^verbatim>\<open>/forbidden\<close> takes the
  request by value and throws \<^verbatim>\<open>HttpException(403, "forbidden")\<close>. The request is read
  with its keep-alive flag off. The call at line 181 moves the request into the handler;
  \<^verbatim>\<open>exception_response\<close> then reads \<^verbatim>\<open>req.keep_alive()\<close> at line 135 from what is left,
  an HTTP/1.1 request without fields, and gets true. The 403 goes out with keep-alive on,
  and the loop goes back to reading instead of closing. A request for \<^verbatim>\<open>/missing\<close> with
  keep-alive off, whose response \<^verbatim>\<open>not_found\<close> makes up before anything is moved, gets
  its 404 with keep-alive off and the connection is closed.
\<close>

theorem error_response_after_move:
  "\<not> keep_alive (sample_request ''/forbidden'' False False)
   \<and> do_session sample_platform sample_server
       [served (sample_request ''/forbidden'' False False)] sample_heap
     = ([Async_write
          \<lparr>version = 11, header = [(content_type, ''text/html''), (server, ''Boost.Beast'')],
           keep_alive = True, content_length = Some 9, body = ''forbidden'', status = 403\<rparr>
          success],
        Suspended, sample_heap)
   \<and> do_session sample_platform sample_server
       [served (sample_request ''/missing'' False False)] sample_heap
     = ([Async_write
          \<lparr>version = 11, header = [(content_type, ''text/html''), (server, ''Boost.Beast'')],
           keep_alive = False, content_length = Some 38,
           body = ''The resource '' @ [CHR 0x27] @ ''/missing'' @ [CHR 0x27] @ '' was not found.'',
           status = 404\<rparr>
          success, Shutdown_send],
        Returned, sample_heap)"
  by (simp add: sample_defs dispatch_def call_HttpHandler_def assign_def moved_from_def
      exception_response_def not_found_def new_response_def prepare_payload_def
      refuses_payload_def status_not_found_def set_field_def c_str_def Let_def)

text \<open>
  C7, as the code has it. On a read failure other than the clean end of the stream the
  loop writes no response, logs the failure and returns at once, without the half-close
  of the outbound direction: \<^verbatim>\<open>return fail(ec, "read")\<close> leaves the function before line
  207. The half-close is what the clean end of the stream leads to.
\<close>

theorem read_failure_returns_at_once:
  "(read_ec io \<noteq> success \<and> read_ec io \<noteq> end_of_stream
      \<longrightarrow> do_session L srv (io # rest) h = ([Logged ''read'' (read_ec io)], Returned, h))
   \<and> (read_ec io = end_of_stream
      \<longrightarrow> do_session L srv (io # rest) h = ([Shutdown_send], Returned, h))"
  by (simp add: fail_def)

theorem read_failure_returns_at_once_witness:
  "read_ec \<lparr>read_ec = failure 104, request = sample_request ''/hello'' True False,
       write_ec = success\<rparr> \<noteq> success
   \<and> read_ec \<lparr>read_ec = failure 104, request = sample_request ''/hello'' True False,
       write_ec = success\<rparr> \<noteq> end_of_stream
   \<and> do_session sample_platform sample_server
     [\<lparr>read_ec = failure 104, request = sample_request ''/hello'' True False,
       write_ec = success\<rparr>] sample_heap
     = ([Logged ''read'' (failure 104)], Returned, sample_heap)
   \<and> do_session sample_platform sample_server
     [\<lparr>read_ec = end_of_stream, request = sample_request ''/hello'' True False,
       write_ec = success\<rparr>] sample_heap
     = ([Shutdown_send], Returned, sample_heap)"
  using read_failure_returns_at_once [of "\<lparr>read_ec = failure 104,
      request = sample_request ''/hello'' True False, write_ec = success\<rparr>"
      sample_platform sample_server "[]" sample_heap]
    read_failure_returns_at_once [of "\<lparr>read_ec = end_of_stream,
      request = sample_request ''/hello'' True False, write_ec = success\<rparr>"
      sample_platform sample_server "[]" sample_heap]
  by simp

text \<open>
  A connection reset (error 104) while reading: the only thing the session does is to
  log it. There is no half-close.
\<close>

theorem read_failure_half_close_counterexample:
  "do_session sample_platform sample_server
     [\<lparr>read_ec = failure 104, request = sample_request ''/hello'' True False,
       write_ec = success\<rparr>] sample_heap
     = ([Logged ''read'' (failure 104)], Returned, sample_heap)
   \<and> Shutdown_send \<notin> set [Logged ''read'' (failure 104)]"
  by (simp add: fail_def)

lemma upgrade_on_http_route_escapes:
  assumes "read_ec io = success" and "is_upgrade (request io)"
    and "Registry_get L (registry srv) (http_method (request io)) (target (request io))
           = Some (HttpHandler f leaves)"
  shows "do_session L srv (io # rest) h = ([], Threw (bad_variant_access L), h)"
  using assms by (simp add: dispatch_def)

lemma upgrade_on_websocket_route:
  assumes "read_ec io = success" and "is_upgrade (request io)"
    and "Registry_get L (registry srv) (http_method (request io)) (target (request io))
           = Some (WebSocketHandler w)"
  shows "do_session L srv (io # rest) h
    = ([On_close (brk h), Run (brk h) (request io)], Returned,
       add srv (brk h) (snd (make_shared w h)))"
  using assms by (simp add: dispatch_def make_shared_def)

text \<open>
  Over a whole connection: no turn hands more than one response to \<^verbatim>\<open>async_write\<close>, and
  once a WebSocket session runs, the loop does nothing more on the socket.
\<close>

lemma writes_at_most_one_per_turn:
  "do_session L srv c h = (acts, out, h') \<Longrightarrow> length (filter is_write acts) \<le> length c"
proof (induction c arbitrary: acts out h')
  case Nil
  then show ?case by simp
next
  case (Cons io rest)
  show ?case
  proof (cases "do_session L srv rest h")
    case (fields acts' out' h'')
    from Cons.IH [OF fields] have "length (filter is_write acts') \<le> length rest" .
    with Cons.prems fields show ?thesis
      by (auto simp: fail_def split: if_splits dispatched.splits prod.splits)
  qed
qed

lemma no_write_after_upgrade:
  "do_session L srv c h = (acts, out, h') \<Longrightarrow> Run s r \<in> set acts \<Longrightarrow> last acts = Run s r"
proof (induction c arbitrary: acts out h')
  case Nil
  then show ?case by simp
next
  case (Cons io rest)
  show ?case
  proof (cases "do_session L srv rest h")
    case (fields acts' out' h'')
    note ih = Cons.IH [OF fields]
    from Cons.prems fields ih show ?thesis
      by (auto simp: fail_def split: if_splits dispatched.splits prod.splits)
  qed
qed

text \<open>
  C1, at an input where the code breaks it. The route \<^verbatim>\<open>/hello\<close> of the sample server
  has an HTTP handler: a plain request for it is answered with 200 and \<^verbatim>\<open>world\<close>. The
  same request with an upgrade signal is read, starts no WebSocket session and gets no
  response at all: \<^verbatim>\<open>std::get<detail::WebSocketHandler>\<close> throws
  \<^verbatim>\<open>std::bad_variant_access\<close> at line 170, outside the inner \<^verbatim>\<open>try\<close> that turns such a
  failure into a 500 on the other branch, and neither \<^verbatim>\<open>catch\<close> clause of lines 190 and
  192 takes it, so it leaves \<^verbatim>\<open>do_session\<close>.
\<close>

theorem upgrade_request_on_http_route:
  "do_session sample_platform sample_server
       [served (sample_request ''/hello'' False False)] sample_heap
     = ([Async_write ((new_response 200 11)\<lparr>body := ''world''\<rparr>) success],
        Suspended, sample_heap)
   \<and> do_session sample_platform sample_server
       [served (sample_request ''/hello'' False True)] sample_heap
     = ([], Threw (std_exception ''bad variant access''), sample_heap)"
  by (simp add: sample_defs dispatch_def call_HttpHandler_def bad_variant_access_def
      new_response_def status_ok_def)

section \<open>The listener and the constructor\<close>

text \<open>
  C2, as the code has it. The constructor returns normally whatever the state of the
  network: it opens, binds and listens on nothing, and only queues \<^verbatim>\<open>do_listen\<close> on the
  reactor. A failure to open the acceptor, to set its option, to bind or to listen is
  thrown by \<^verbatim>\<open>do_listen\<close> when \<^verbatim>\<open>run\<close> starts it, and leaves \<^verbatim>\<open>run\<close> before any connection
  is accepted; when all four succeed, \<^verbatim>\<open>run\<close> gets to the accept loop.
\<close>

theorem listener_failure_surfaces_in_run:
  "\<exists>srv h'. WebServer n port h = Inr (srv, h')
     \<and> ioc srv = [do_listen_task (''::'', port)]
     \<and> (open_ec n \<noteq> success \<or> set_option_ec n \<noteq> success
           \<or> bind_ec n (''::'', port) \<noteq> success \<or> listen_ec n \<noteq> success
          \<longrightarrow> (\<exists>ec. ec \<noteq> success \<and> run n srv = Inl ec))
     \<and> (open_ec n = success \<and> set_option_ec n = success
           \<and> bind_ec n (''::'', port) = success \<and> listen_ec n = success
          \<longrightarrow> run n srv = Inr (accept_loop (accepts n)))"
  by (auto simp: WebServer_def run_def do_listen_def)

text \<open>
  The port is in use (error 98): the constructor returns a server, and \<^verbatim>\<open>run\<close> throws.
\<close>

theorem listener_failure_surfaces_in_run_witness:
  "bind_ec \<lparr>open_ec = success, set_option_ec = success, bind_ec = (\<lambda>ep. failure 98),
            listen_ec = success, accepts = []\<rparr> (''::'', 80) \<noteq> success
   \<and> (\<exists>srv h'.
        WebServer \<lparr>open_ec = success, set_option_ec = success, bind_ec = (\<lambda>ep. failure 98),
                   listen_ec = success, accepts = []\<rparr> 80 sample_heap = Inr (srv, h')
      \<and> run \<lparr>open_ec = success, set_option_ec = success, bind_ec = (\<lambda>ep. failure 98),
               listen_ec = success, accepts = []\<rparr> srv = Inl (failure 98))"
proof -
  let ?n = "\<lparr>open_ec = success, set_option_ec = success, bind_ec = (\<lambda>ep. failure 98),
             listen_ec = success, accepts = []\<rparr>"
  have b: "bind_ec ?n (''::'', 80) \<noteq> success"
    by simp
  from listener_failure_surfaces_in_run [of ?n 80 sample_heap]
  obtain srv :: "nat WebServer" and h' where w: "WebServer ?n 80 sample_heap = Inr (srv, h')"
    and i: "ioc srv = [do_listen_task (''::'', 80)]"
    by blast
  have "run ?n srv = Inl (failure 98)"
    by (simp add: run_def i do_listen_def)
  with b w show ?thesis by blast
qed

text \<open>
  With the port in use, the constructor still returns a server object.
\<close>

theorem constructor_raises_counterexample:
  "bind_ec \<lparr>open_ec = success, set_option_ec = success, bind_ec = (\<lambda>ep. failure 98),
            listen_ec = success, accepts = []\<rparr> (''::'', 80) \<noteq> success
   \<and> WebServer \<lparr>open_ec = success, set_option_ec = success, bind_ec = (\<lambda>ep. failure 98),
                listen_ec = success, accepts = []\<rparr> 80 sample_heap
     = Inr (\<lparr>ioc = [do_listen_task (''::'', 80)], registry = [], ws_sessions = 1\<rparr>,
            \<lparr>vectors = [0 \<mapsto> [], 1 \<mapsto> []], sessions = Map.empty, brk = 2\<rparr>)"
  by (simp add: WebServer_def sample_heap_def)

end
